theory Spec2Isabelle
  imports Complex_Main "HOL-Library.Log_Nat" "HOL-Library.Sublist" "HOL-Library.Multiset"
begin

section \<open>JavaScript numbers\<close>

text \<open>
  A JavaScript number is an IEEE 754 binary64 value. \<open>Fin q\<close> is the finite double of
  rational value \<open>q\<close>; the two zeros are one value \<open>Fin 0\<close>, since the program only
  tests numbers for truthiness, adds them and serialises them to JSON, and none of these
  tells \<open>+0\<close> from \<open>-0\<close>.
\<close>

datatype jsnum = NaN | PInf | NInf | Fin rat

definition pow2 :: "int \<Rightarrow> rat" where
  "pow2 e = (if 0 \<le> e then 2 ^ nat e else 1 / 2 ^ nat (- e))"

text \<open>For \<open>q > 0\<close>, \<open>ilog2 q\<close> is the exponent \<open>e\<close> with \<open>2\<^sup>e \<le> q < 2\<^sup>e\<^sup>+\<^sup>1\<close>.\<close>

definition ilog2 :: "rat \<Rightarrow> int" where
  "ilog2 q = (if 1 \<le> q then bitlen \<lfloor>q\<rfloor> - 1 else - bitlen (\<lceil>1 / q\<rceil> - 1))"

definition round_half_even :: "rat \<Rightarrow> int" where
  "round_half_even q = (let f = \<lfloor>q\<rfloor>; d = q - of_int f
     in if d < 1 / 2 then f else if 1 / 2 < d then f + 1 else if even f then f else f + 1)"

text \<open>
  Rounding to the nearest double, ties to the even significand: 53 significant bits,
  the least exponent \<open>-1074\<close> (subnormals), overflow to infinity at \<open>2\<^sup>1\<^sup>0\<^sup>2\<^sup>4\<close>.
\<close>

definition round_double :: "rat \<Rightarrow> jsnum" where
  "round_double q = (if q = 0 then Fin 0 else
     let e = max (ilog2 \<bar>q\<bar> - 52) (- 1074);
         v = of_int (round_half_even (\<bar>q\<bar> / pow2 e)) * pow2 e
     in if pow2 1024 \<le> v then (if 0 < q then PInf else NInf)
        else Fin (if 0 < q then v else - v))"

text \<open>The \<open>+\<close> of two numbers.\<close>

fun js_add :: "jsnum \<Rightarrow> jsnum \<Rightarrow> jsnum" where
  "js_add NaN y = NaN"
| "js_add x NaN = NaN"
| "js_add PInf NInf = NaN"
| "js_add NInf PInf = NaN"
| "js_add PInf y = PInf"
| "js_add x PInf = PInf"
| "js_add NInf y = NInf"
| "js_add x NInf = NInf"
| "js_add (Fin a) (Fin b) = round_double (a + b)"

subsection \<open>Strings to numbers\<close>

text \<open>
  \<open>Number(s)\<close> on a string: the StringNumericLiteral grammar of ECMAScript. A string is a
  list of code units below 256; the white space among them is TAB, LF, VT, FF, CR, SP and
  NBSP.
\<close>

definition is_ws :: "char \<Rightarrow> bool" where
  "is_ws c = (of_char c \<in> {9, 10, 11, 12, 13, 32, 160 :: nat})"

definition trim :: "string \<Rightarrow> string" where
  "trim s = rev (dropWhile is_ws (rev (dropWhile is_ws s)))"

definition digit_of :: "char \<Rightarrow> nat option" where
  "digit_of c = (let n = of_char c :: nat in
     if 48 \<le> n \<and> n \<le> 57 then Some (n - 48)
     else if 97 \<le> n \<and> n \<le> 102 then Some (n - 87)
     else if 65 \<le> n \<and> n \<le> 70 then Some (n - 55)
     else None)"

fun digits_in :: "nat \<Rightarrow> string \<Rightarrow> nat \<Rightarrow> nat option" where
  "digits_in b [] acc = Some acc"
| "digits_in b (c # cs) acc =
     (case digit_of c of
        None \<Rightarrow> None
      | Some d \<Rightarrow> if d < b then digits_in b cs (acc * b + d) else None)"

definition nat_of_digits :: "nat \<Rightarrow> string \<Rightarrow> nat option" where
  "nat_of_digits b s = (if s = [] then None else digits_in b s 0)"

definition is_digit :: "char \<Rightarrow> bool" where
  "is_digit c = (case digit_of c of None \<Rightarrow> False | Some d \<Rightarrow> d < 10)"

definition pow10 :: "int \<Rightarrow> rat" where
  "pow10 e = (if 0 \<le> e then 10 ^ nat e else 1 / 10 ^ nat (- e))"

text \<open>ExponentPart, or nothing: \<open>e\<close> or \<open>E\<close>, an optional sign, digits.\<close>

definition parse_exponent :: "string \<Rightarrow> int option" where
  "parse_exponent s =
     (case s of
        [] \<Rightarrow> Some 0
      | c # t \<Rightarrow>
          if c = CHR ''e'' \<or> c = CHR ''E'' then
            (case t of
               [] \<Rightarrow> None
             | d # u \<Rightarrow>
                 if d = CHR ''+'' then map_option int (nat_of_digits 10 u)
                 else if d = CHR ''-'' then map_option (\<lambda>n. - int n) (nat_of_digits 10 u)
                 else map_option int (nat_of_digits 10 t))
          else None)"

text \<open>
  An unsigned decimal literal: digits, an optional fraction, an optional exponent, with
  a digit before or after the point.
\<close>

definition parse_decimal :: "string \<Rightarrow> rat option" where
  "parse_decimal s =
     (let ip = takeWhile is_digit s;
          r = dropWhile is_digit s;
          dot = (r \<noteq> [] \<and> hd r = CHR ''.'');
          fp = (if dot then takeWhile is_digit (tl r) else []);
          r' = (if dot then dropWhile is_digit (tl r) else r)
      in if ip = [] \<and> fp = [] then None
         else (case (nat_of_digits 10 (ip @ fp), parse_exponent r') of
                 (Some n, Some x) \<Rightarrow> Some (of_nat n * pow10 (x - int (length fp)))
               | _ \<Rightarrow> None))"

definition parse_unsigned :: "bool \<Rightarrow> string \<Rightarrow> jsnum" where
  "parse_unsigned neg s =
     (if s = ''Infinity'' then (if neg then NInf else PInf)
      else (case parse_decimal s of
              None \<Rightarrow> NaN
            | Some q \<Rightarrow> round_double (if neg then - q else q)))"

definition parse_radix :: "nat \<Rightarrow> string \<Rightarrow> jsnum" where
  "parse_radix b s =
     (case nat_of_digits b s of None \<Rightarrow> NaN | Some n \<Rightarrow> round_double (of_nat n))"

definition str_to_num :: "string \<Rightarrow> jsnum" where
  "str_to_num s =
     (let t = trim s in
      if t = [] then Fin 0
      else if take 2 t = ''0x'' \<or> take 2 t = ''0X'' then parse_radix 16 (drop 2 t)
      else if take 2 t = ''0o'' \<or> take 2 t = ''0O'' then parse_radix 8 (drop 2 t)
      else if take 2 t = ''0b'' \<or> take 2 t = ''0B'' then parse_radix 2 (drop 2 t)
      else if hd t = CHR ''-'' then parse_unsigned True (tl t)
      else if hd t = CHR ''+'' then parse_unsigned False (tl t)
      else parse_unsigned False t)"

section \<open>JavaScript values\<close>

text \<open>
  The values the program handles are JSON values and \<open>undefined\<close>. An object is an
  association list read by \<open>map_of\<close>.
\<close>

datatype jsval =
    JUndefined
  | JNull
  | JBool bool
  | JNum jsnum
  | JStr string
  | JArr "jsval list"
  | JObj "(string \<times> jsval) list"

text \<open>What a \<open>throw\<close> carries: a \<open>TypeError\<close> of the runtime, \<open>new Error(msg)\<close>, or any value.\<close>

datatype exn = TypeError | ErrorMsg string | Thrown jsval

fun truthy :: "jsval \<Rightarrow> bool" where
  "truthy JUndefined = False"
| "truthy JNull = False"
| "truthy (JBool b) = b"
| "truthy (JNum n) = (n \<noteq> NaN \<and> n \<noteq> Fin 0)"
| "truthy (JStr s) = (s \<noteq> [])"
| "truthy (JArr xs) = True"
| "truthy (JObj kvs) = True"

text \<open>\<open>a || b\<close> and \<open>a ?? b\<close>.\<close>

definition js_or :: "jsval \<Rightarrow> jsval \<Rightarrow> jsval" where
  "js_or a b = (if truthy a then a else b)"

definition js_nullish :: "jsval \<Rightarrow> jsval \<Rightarrow> jsval" where
  "js_nullish a b = (if a = JUndefined \<or> a = JNull then b else a)"

text \<open>
  \<open>v.k\<close>, for a property name \<open>k\<close> that no built-in prototype defines (every name the
  program reads is such a name): a \<open>TypeError\<close> on \<open>null\<close> and \<open>undefined\<close>, the own
  property of an object, \<open>undefined\<close> otherwise.
\<close>

fun get_prop :: "jsval \<Rightarrow> string \<Rightarrow> exn + jsval" where
  "get_prop JUndefined k = Inl TypeError"
| "get_prop JNull k = Inl TypeError"
| "get_prop (JObj kvs) k = Inr (case map_of kvs k of None \<Rightarrow> JUndefined | Some v \<Rightarrow> v)"
| "get_prop v k = Inr JUndefined"

text \<open>
  \<open>String(v)\<close> throws a \<open>TypeError\<close> exactly when a JSON object with an own (hence not
  callable) \<open>toString\<close> property is reached.
\<close>

fun to_string_throws :: "jsval \<Rightarrow> bool" where
  "to_string_throws (JObj kvs) = (''toString'' \<in> fst ` set kvs)"
| "to_string_throws (JArr xs) = (\<exists>x \<in> set xs. to_string_throws x)"
| "to_string_throws v = False"

text \<open>
  \<open>Number(v)\<close>. An object becomes \<open>"[object Object]"\<close>, which is not numeric. An array
  becomes its elements joined by commas (\<open>null\<close> and \<open>undefined\<close> as the empty string),
  so an array of two or more elements is not numeric, and an array of one element is
  the number of that element's string, which for a number is the number itself.
\<close>

fun to_number :: "jsval \<Rightarrow> exn + jsnum" where
  "to_number JUndefined = Inr NaN"
| "to_number JNull = Inr (Fin 0)"
| "to_number (JBool b) = Inr (Fin (if b then 1 else 0))"
| "to_number (JNum n) = Inr n"
| "to_number (JStr s) = Inr (str_to_num s)"
| "to_number (JObj kvs) = (if to_string_throws (JObj kvs) then Inl TypeError else Inr NaN)"
| "to_number (JArr []) = Inr (Fin 0)"
| "to_number (JArr [JUndefined]) = Inr (Fin 0)"
| "to_number (JArr [JNull]) = Inr (Fin 0)"
| "to_number (JArr [JBool b]) = Inr NaN"
| "to_number (JArr [JNum n]) = Inr n"
| "to_number (JArr [JStr s]) = Inr (str_to_num s)"
| "to_number (JArr [JArr ys]) = to_number (JArr ys)"
| "to_number (JArr [JObj kvs]) = to_number (JObj kvs)"
| "to_number (JArr (x # y # zs)) =
     (if to_string_throws (JArr (x # y # zs)) then Inl TypeError else Inr NaN)"

text \<open>
  Iteration by \<open>for ... of\<close>: the elements of an array, the characters of a string, a
  \<open>TypeError\<close> on every other value.
\<close>

fun js_iterate :: "jsval \<Rightarrow> exn + jsval list" where
  "js_iterate (JArr xs) = Inr xs"
| "js_iterate (JStr s) = Inr (map (\<lambda>c. JStr [c]) s)"
| "js_iterate v = Inl TypeError"

text \<open>\<open>s.split(c)\<close> for a separator of one character.\<close>

fun js_split :: "string \<Rightarrow> char \<Rightarrow> string list" where
  "js_split [] c = [[]]"
| "js_split (x # xs) c =
     (if x = c then [] # js_split xs c
      else (case js_split xs c of [] \<Rightarrow> [[x]] | p # ps \<Rightarrow> (x # p) # ps))"

section \<open>Programs that await an external service\<close>

text \<open>
  An \<open>async\<close> function is a tree: it returns, throws, or awaits the answer to a request
  and goes on with the outcome, which is a rejection or a resolved value. The service
  answering the requests (the data store, the identity provider) is a handler; \<open>run\<close>
  threads the service's state through the program and records the requests made.
\<close>

datatype 'r outcome = Rejected exn | Resolved 'r

datatype ('q, 'r, 'a) prog =
    Return 'a
  | Throw exn
  | Await 'q "'r outcome \<Rightarrow> ('q, 'r, 'a) prog"

primrec run ::
  "('q \<Rightarrow> 'w \<Rightarrow> 'r outcome \<times> 'w) \<Rightarrow> ('q, 'r, 'a) prog \<Rightarrow> 'w \<Rightarrow> (exn + 'a) \<times> 'w \<times> 'q list"
where
  "run h (Return a) = (\<lambda>w. (Inr a, w, []))"
| "run h (Throw e) = (\<lambda>w. (Inl e, w, []))"
| "run h (Await q k) =
     (\<lambda>w. case h q w of (out, w') \<Rightarrow>
        (case run h (k out) w' of (res, w'', qs) \<Rightarrow> (res, w'', q # qs)))"

section \<open>The authentication gate (middleware/auth.js)\<close>

text \<open>
  \<open>req.headers.authorization\<close> is a string or \<open>undefined\<close>; \<open>token\<close> is \<open>None\<close> where
  the source has \<open>null\<close>. The gate's requests are \<open>adminAuth.verifyIdToken(token)\<close> and
  \<open>next()\<close>, the latter made with the decoded token stored in \<open>req.firebaseUser\<close>; both
  stand in the \<open>try\<close>. The gate ends with the response
  \<open>res.status(code).json({error: message})\<close>, or with the request handed on.
  \<open>console.error\<close> is not modelled.
\<close>

record request =
  authorization :: "string option"

datatype auth_call = VerifyIdToken string | Next jsval

datatype auth_end = Responded nat string | Forwarded jsval

definition requireAuth :: "request \<Rightarrow> (auth_call, jsval, auth_end) prog" where
  "requireAuth req =
     (let authHeader = (case authorization req of None \<Rightarrow> [] | Some h \<Rightarrow> if h \<noteq> [] then h else []);
          token = (if prefix ''Bearer '' authHeader then Some (drop 7 authHeader) else None)
      in case token of
           None \<Rightarrow> Return (Responded 401 ''Unauthorized: missing token'')
         | Some t \<Rightarrow>
             if t = [] then Return (Responded 401 ''Unauthorized: missing token'')
             else
               Await (VerifyIdToken t) (\<lambda>out.
                 case out of
                   Rejected e \<Rightarrow> Return (Responded 401 ''Unauthorized: invalid token'')
                 | Resolved decoded \<Rightarrow>
                     Await (Next decoded) (\<lambda>out'.
                       case out' of
                         Rejected e \<Rightarrow> Return (Responded 401 ''Unauthorized: invalid token'')
                       | Resolved u \<Rightarrow> Return (Forwarded decoded))))"

section \<open>The data access layer (services/foodLogsService.js)\<close>

text \<open>
  Each request is one chain of calls on the \<open>supabase\<close> client, as the source writes
  it; the client resolves to \<open>{data, error}\<close>. User and row ids are numbers, a date is
  its day number: the program hands both to the store unread.
\<close>

datatype query =
    SelectFoodLogsByDate nat int
    \<comment> \<open>\<open>from('food_logs').select('*').eq('user_id', u).eq('date', d).order('logged_at', {ascending: true})\<close>\<close>
  | SelectCaloriesInRange nat int int
    \<comment> \<open>\<open>from('food_logs').select('calories').eq('user_id', u).gte('date', a).lte('date', b)\<close>\<close>
  | SelectNutrition nat int
    \<comment> \<open>\<open>from('food_logs').select('calories, makanan!inner(proteins, fat, carbohydrate)').eq('user_id', u).eq('date', d)\<close>\<close>
  | SelectUserId jsval
    \<comment> \<open>\<open>from('users').select('id').eq('firebase_uid', uid).maybeSingle()\<close>\<close>
  | InsertUser jsval jsval jsval
    \<comment> \<open>\<open>from('users').insert({firebase_uid, email, username}).select('id').single()\<close>\<close>
  | SelectTarget nat
    \<comment> \<open>\<open>from('users').select('daily_calorie_target').eq('id', i).maybeSingle()\<close>\<close>
  | UpdateTarget nat jsval
    \<comment> \<open>\<open>from('users').update({daily_calorie_target: v}).eq('id', i)\<close>\<close>

record response =
  data :: jsval
  error :: jsval

type_synonym 'a service = "(query, response, 'a) prog"

definition getFoodLogsByDate :: "nat \<Rightarrow> int \<Rightarrow> jsval service" where
  "getFoodLogsByDate userId date =
     Await (SelectFoodLogsByDate userId date) (\<lambda>out.
       case out of
         Rejected e \<Rightarrow> Throw e
       | Resolved r \<Rightarrow>
           if truthy (error r) then Throw (Thrown (error r))
           else Return (js_or (data r) (JArr [])))"

text \<open>\<open>Number(v.k || 0)\<close>.\<close>

definition number_or_zero :: "jsval \<Rightarrow> string \<Rightarrow> exn + jsnum" where
  "number_or_zero v k =
     (case get_prop v k of
        Inl e \<Rightarrow> Inl e
      | Inr x \<Rightarrow> to_number (js_or x (JNum (Fin 0))))"

text \<open>
  The callback of \<open>reduce\<close>, \<open>sum + Number(row.calories || 0)\<close>, applied from the left;
  \<open>acc\<close> is the source's \<open>sum\<close>.
\<close>

fun sum_calories :: "jsnum \<Rightarrow> jsval list \<Rightarrow> exn + jsnum" where
  "sum_calories acc [] = Inr acc"
| "sum_calories acc (row # rows) =
     (case number_or_zero row ''calories'' of
        Inl e \<Rightarrow> Inl e
      | Inr n \<Rightarrow> sum_calories (js_add acc n) rows)"

text \<open>\<open>(data || []).reduce\<close> is a function only when the value is an array.\<close>

definition getTotalCaloriesInRange :: "nat \<Rightarrow> int \<Rightarrow> int \<Rightarrow> jsval service" where
  "getTotalCaloriesInRange userId startDate endDate =
     Await (SelectCaloriesInRange userId startDate endDate) (\<lambda>out.
       case out of
         Rejected e \<Rightarrow> Throw e
       | Resolved r \<Rightarrow>
           if truthy (error r) then Throw (Thrown (error r))
           else (case js_or (data r) (JArr []) of
                   JArr rows \<Rightarrow>
                     (case sum_calories (Fin 0) rows of
                        Inl e \<Rightarrow> Throw e
                      | Inr n \<Rightarrow> Return (JNum n))
                 | _ \<Rightarrow> Throw TypeError))"

record summary =
  protein :: jsnum
  carbs :: jsnum
  fat :: jsnum

definition zero_summary :: summary where
  "zero_summary = \<lparr>protein = Fin 0, carbs = Fin 0, fat = Fin 0\<rparr>"

text \<open>The body of the \<open>for\<close> loop, with the three running sums.\<close>

fun sum_nutrition :: "summary \<Rightarrow> jsval list \<Rightarrow> exn + summary" where
  "sum_nutrition acc [] = Inr acc"
| "sum_nutrition acc (row # rows) =
     (case get_prop row ''makanan'' of
        Inl e \<Rightarrow> Inl e
      | Inr food \<Rightarrow>
          if \<not> truthy food then sum_nutrition acc rows
          else
            (case number_or_zero food ''proteins'' of
               Inl e \<Rightarrow> Inl e
             | Inr pn \<Rightarrow>
                 (case number_or_zero food ''carbohydrate'' of
                    Inl e \<Rightarrow> Inl e
                  | Inr cn \<Rightarrow>
                      (case number_or_zero food ''fat'' of
                         Inl e \<Rightarrow> Inl e
                       | Inr fn \<Rightarrow>
                           sum_nutrition
                             \<lparr>protein = js_add (protein acc) pn,
                              carbs = js_add (carbs acc) cn,
                              fat = js_add (fat acc) fn\<rparr> rows))))"

text \<open>The whole body stands in \<open>try\<close>; the \<open>catch\<close> returns the zero summary.\<close>

definition getDailyNutritionSummary :: "nat \<Rightarrow> int \<Rightarrow> summary service" where
  "getDailyNutritionSummary userId date =
     Await (SelectNutrition userId date) (\<lambda>out.
       case out of
         Rejected e \<Rightarrow> Return zero_summary
       | Resolved r \<Rightarrow>
           if truthy (error r) then Return zero_summary
           else (case js_iterate (js_or (data r) (JArr [])) of
                   Inl e \<Rightarrow> Return zero_summary
                 | Inr rows \<Rightarrow>
                     (case sum_nutrition zero_summary rows of
                        Inl e \<Rightarrow> Return zero_summary
                      | Inr s \<Rightarrow> Return s)))"

record sync_params =
  firebase_uid :: jsval
  email :: jsval
  username :: jsval

text \<open>
  \<open>username || (email ? email.split('@')[0] : null)\<close>; only a string has a \<open>split\<close>
  to call.
\<close>

definition effectiveUsername :: "sync_params \<Rightarrow> exn + jsval" where
  "effectiveUsername p =
     (if truthy (username p) then Inr (username p)
      else if truthy (email p) then
        (case email p of
           JStr s \<Rightarrow> Inr (case js_split s CHR ''@'' of [] \<Rightarrow> JUndefined | x # xs \<Rightarrow> JStr x)
         | _ \<Rightarrow> Inl TypeError)
      else Inr JNull)"

definition syncFirebaseUser :: "sync_params \<Rightarrow> jsval service" where
  "syncFirebaseUser p =
     (if \<not> truthy (firebase_uid p) then Throw (ErrorMsg ''firebase_uid is required'')
      else
        (case effectiveUsername p of
           Inl e \<Rightarrow> Throw e
         | Inr name \<Rightarrow>
             Await (SelectUserId (firebase_uid p)) (\<lambda>out.
               case out of
                 Rejected e \<Rightarrow> Throw e
               | Resolved r \<Rightarrow>
                   if truthy (error r) then Throw (Thrown (error r))
                   else if truthy (data r) then
                     (case get_prop (data r) ''id'' of Inl e \<Rightarrow> Throw e | Inr i \<Rightarrow> Return i)
                   else
                     Await (InsertUser (firebase_uid p) (email p) name) (\<lambda>out'.
                       case out' of
                         Rejected e \<Rightarrow> Throw e
                       | Resolved r' \<Rightarrow>
                           if truthy (error r') then Throw (Thrown (error r'))
                           else (case get_prop (data r') ''id'' of
                                   Inl e \<Rightarrow> Throw e
                                 | Inr i \<Rightarrow> Return i)))))"

text \<open>\<open>data?.daily_calorie_target ?? null\<close>.\<close>

definition js_opt_prop :: "jsval \<Rightarrow> string \<Rightarrow> jsval" where
  "js_opt_prop v k = (case get_prop v k of Inl e \<Rightarrow> JUndefined | Inr x \<Rightarrow> x)"

definition getUserDailyCalorieTarget :: "nat \<Rightarrow> jsval service" where
  "getUserDailyCalorieTarget userId =
     Await (SelectTarget userId) (\<lambda>out.
       case out of
         Rejected e \<Rightarrow> Throw e
       | Resolved r \<Rightarrow>
           if truthy (error r) then Throw (Thrown (error r))
           else Return (js_nullish (js_opt_prop (data r) ''daily_calorie_target'') JNull))"

text \<open>\<open>target == null ? null : Number(target)\<close>.\<close>

definition normalize_target :: "jsval \<Rightarrow> exn + jsval" where
  "normalize_target target =
     (if target = JNull \<or> target = JUndefined then Inr JNull
      else (case to_number target of Inl e \<Rightarrow> Inl e | Inr n \<Rightarrow> Inr (JNum n)))"

definition updateUserDailyCalorieTarget :: "nat \<Rightarrow> jsval \<Rightarrow> jsval service" where
  "updateUserDailyCalorieTarget userId target =
     (case normalize_target target of
        Inl e \<Rightarrow> Throw e
      | Inr v \<Rightarrow>
          Await (UpdateTarget userId v) (\<lambda>out.
            case out of
              Rejected e \<Rightarrow> Throw e
            | Resolved r \<Rightarrow>
                if truthy (error r) then Throw (Thrown (error r))
                else Return v))"

section \<open>The data store\<close>

text \<open>
  The managed store is not part of the repository. Its model follows the schema the
  specification gives: \<open>users(id, firebase_uid unique, email, username,
  daily_calorie_target nullable)\<close>, \<open>food_logs(id, user_id, date, food_name_custom,
  calories, food_id nullable, logged_at)\<close> and the catalog \<open>makanan(id, proteins, fat,
  carbohydrate)\<close>. A column the program reads holds a JSON value; a timestamp is a
  number of ticks. The model answers every request, and with an error only where the
  request itself is at fault (a second row for \<open>maybeSingle\<close>, a \<open>firebase_uid\<close> already
  there); what the program does when the store fails is stated for every handler.
\<close>

record food_log =
  log_id :: nat
  log_user_id :: nat
  log_date :: int
  log_food_name_custom :: string
  log_calories :: jsval
  log_food_id :: "nat option"
  log_logged_at :: nat

record user_row =
  user_id :: nat
  user_firebase_uid :: jsval
  user_email :: jsval
  user_username :: jsval
  user_daily_calorie_target :: jsval

record makanan_row =
  makanan_id :: nat
  makanan_proteins :: jsval
  makanan_fat :: jsval
  makanan_carbohydrate :: jsval

record db =
  food_logs :: "food_log list"
  users :: "user_row list"
  makanan :: "makanan_row list"

definition JNat :: "nat \<Rightarrow> jsval" where
  "JNat n = JNum (Fin (of_nat n))"

definition food_log_json :: "food_log \<Rightarrow> jsval" where
  "food_log_json r = JObj
     [(''id'', JNat (log_id r)),
      (''user_id'', JNat (log_user_id r)),
      (''date'', JNum (Fin (of_int (log_date r)))),
      (''food_name_custom'', JStr (log_food_name_custom r)),
      (''calories'', log_calories r),
      (''food_id'', (case log_food_id r of None \<Rightarrow> JNull | Some f \<Rightarrow> JNat f)),
      (''logged_at'', JNat (log_logged_at r))]"

text \<open>The inner join: a log with no catalog row gives no result row.\<close>

definition nutrition_json :: "makanan_row list \<Rightarrow> food_log \<Rightarrow> jsval option" where
  "nutrition_json cat r =
     (case log_food_id r of
        None \<Rightarrow> None
      | Some f \<Rightarrow>
          (case find (\<lambda>m. makanan_id m = f) cat of
             None \<Rightarrow> None
           | Some m \<Rightarrow>
               Some (JObj
                 [(''calories'', log_calories r),
                  (''makanan'', JObj
                     [(''proteins'', makanan_proteins m),
                      (''fat'', makanan_fat m),
                      (''carbohydrate'', makanan_carbohydrate m)])])))"

text \<open>
  What a column holds after a value was sent as JSON: a property that is \<open>undefined\<close>
  is left out and the column takes its default \<open>null\<close>; a number that is not finite is
  written as \<open>null\<close>.
\<close>

definition column_value :: "jsval \<Rightarrow> jsval" where
  "column_value v =
     (case v of
        JUndefined \<Rightarrow> JNull
      | JNum n \<Rightarrow> (case n of Fin q \<Rightarrow> JNum n | _ \<Rightarrow> JNull)
      | _ \<Rightarrow> v)"

definition ok :: "jsval \<Rightarrow> response outcome" where
  "ok d = Resolved \<lparr>data = d, error = JNull\<rparr>"

definition failed :: "string \<Rightarrow> response outcome" where
  "failed code = Resolved \<lparr>data = JNull, error = JObj [(''code'', JStr code)]\<rparr>"

text \<open>\<open>maybeSingle()\<close>: no row is \<open>null\<close>, one row is the row, more rows are an error.\<close>

definition maybeSingle :: "jsval list \<Rightarrow> response outcome" where
  "maybeSingle rows =
     (case rows of [] \<Rightarrow> ok JNull | [r] \<Rightarrow> ok r | _ \<Rightarrow> failed ''PGRST116'')"

definition fresh_user_id :: "user_row list \<Rightarrow> nat" where
  "fresh_user_id us = Suc (fold max (map user_id us) 0)"

fun supabase :: "query \<Rightarrow> db \<Rightarrow> response outcome \<times> db" where
  "supabase (SelectFoodLogsByDate u d) s =
     (ok (JArr (map food_log_json
        (sort_key log_logged_at
           (filter (\<lambda>r. log_user_id r = u \<and> log_date r = d) (food_logs s))))), s)"
| "supabase (SelectCaloriesInRange u a b) s =
     (ok (JArr (map (\<lambda>r. JObj [(''calories'', log_calories r)])
        (filter (\<lambda>r. log_user_id r = u \<and> a \<le> log_date r \<and> log_date r \<le> b) (food_logs s)))), s)"
| "supabase (SelectNutrition u d) s =
     (ok (JArr (List.map_filter (nutrition_json (makanan s))
        (filter (\<lambda>r. log_user_id r = u \<and> log_date r = d) (food_logs s)))), s)"
| "supabase (SelectUserId uid) s =
     (maybeSingle (map (\<lambda>r. JObj [(''id'', JNat (user_id r))])
        (filter (\<lambda>r. user_firebase_uid r = uid) (users s))), s)"
| "supabase (InsertUser uid mail name) s =
     (if uid \<in> user_firebase_uid ` set (users s) then (failed ''23505'', s)
      else
        (ok (JObj [(''id'', JNat (fresh_user_id (users s)))]),
         s\<lparr>users := users s @
           [\<lparr>user_id = fresh_user_id (users s),
             user_firebase_uid = column_value uid,
             user_email = column_value mail,
             user_username = column_value name,
             user_daily_calorie_target = JNull\<rparr>]\<rparr>))"
| "supabase (SelectTarget i) s =
     (maybeSingle (map (\<lambda>r. JObj [(''daily_calorie_target'', user_daily_calorie_target r)])
        (filter (\<lambda>r. user_id r = i) (users s))), s)"
| "supabase (UpdateTarget i v) s =
     (ok JNull,
      s\<lparr>users := map (\<lambda>r. if user_id r = i
                             then r\<lparr>user_daily_calorie_target := column_value v\<rparr>
                             else r) (users s)\<rparr>)"

section \<open>Notions used in the statements\<close>

text \<open>The rows of one user in the inclusive range of dates from \<open>a\<close> to \<open>b\<close>.\<close>

definition in_range :: "nat \<Rightarrow> int \<Rightarrow> int \<Rightarrow> food_log \<Rightarrow> bool" where
  "in_range u a b r = (log_user_id r = u \<and> a \<le> log_date r \<and> log_date r \<le> b)"

text \<open>A value of a scalar column: not an array and not an object.\<close>

fun primitive :: "jsval \<Rightarrow> bool" where
  "primitive (JArr xs) = False"
| "primitive (JObj kvs) = False"
| "primitive v = True"

text \<open>
  The number a scalar \<open>calories\<close> value counts for in the total: \<open>0\<close> when it is missing
  or falsy (\<open>undefined\<close>, \<open>null\<close>, \<open>false\<close>, \<open>0\<close>, \<open>NaN\<close>, the empty string), and its
  conversion to a number otherwise.
\<close>

definition calories_number :: "jsval \<Rightarrow> jsnum" where
  "calories_number v =
     (case v of
        JNum n \<Rightarrow> if n = NaN then Fin 0 else n
      | JStr s \<Rightarrow> if s = [] then Fin 0 else str_to_num s
      | JBool b \<Rightarrow> Fin (if b then 1 else 0)
      | _ \<Rightarrow> Fin 0)"

subsection \<open>Two states of the store\<close>

definition example_db :: db where
  "example_db =
     \<lparr>food_logs =
        [\<lparr>log_id = 1, log_user_id = 7, log_date = 19000, log_food_name_custom = ''nasi goreng'',
          log_calories = JNat 630, log_food_id = Some 1, log_logged_at = 30\<rparr>,
         \<lparr>log_id = 2, log_user_id = 7, log_date = 19000, log_food_name_custom = ''teh tawar'',
          log_calories = JNull, log_food_id = None, log_logged_at = 10\<rparr>,
         \<lparr>log_id = 3, log_user_id = 7, log_date = 19001, log_food_name_custom = ''sate'',
          log_calories = JNat 250, log_food_id = None, log_logged_at = 40\<rparr>,
         \<lparr>log_id = 4, log_user_id = 8, log_date = 19000, log_food_name_custom = ''bakso'',
          log_calories = JNat 400, log_food_id = None, log_logged_at = 20\<rparr>,
         \<lparr>log_id = 5, log_user_id = 8, log_date = 19000, log_food_name_custom = ''es campur'',
          log_calories = JStr ''abc'', log_food_id = None, log_logged_at = 50\<rparr>],
      users =
        [\<lparr>user_id = 7, user_firebase_uid = JStr ''abc'', user_email = JStr ''a@b.com'',
          user_username = JStr ''a'', user_daily_calorie_target = JNat 2000\<rparr>,
         \<lparr>user_id = 8, user_firebase_uid = JStr ''def'', user_email = JStr ''d@e.com'',
          user_username = JStr ''d'', user_daily_calorie_target = JNull\<rparr>],
      makanan =
        [\<lparr>makanan_id = 1, makanan_proteins = JNat 12, makanan_fat = JNat 20,
          makanan_carbohydrate = JNat 80\<rparr>]\<rparr>"

text \<open>Three logs whose calories are the numbers that the JSON texts 0.1, 0.2 and 0.3 denote.\<close>

definition fractions_db :: db where
  "fractions_db =
     \<lparr>food_logs =
        [\<lparr>log_id = 1, log_user_id = 7, log_date = 19000, log_food_name_custom = ''kerupuk'',
          log_calories = JNum (str_to_num ''0.1''), log_food_id = None, log_logged_at = 1\<rparr>,
         \<lparr>log_id = 2, log_user_id = 7, log_date = 19001, log_food_name_custom = ''teh manis'',
          log_calories = JNum (str_to_num ''0.2''), log_food_id = None, log_logged_at = 2\<rparr>,
         \<lparr>log_id = 3, log_user_id = 7, log_date = 19001, log_food_name_custom = ''kopi'',
          log_calories = JNum (str_to_num ''0.3''), log_food_id = None, log_logged_at = 3\<rparr>],
      users = [], makanan = []\<rparr>"

section \<open>Evaluating numbers\<close>

lemma round_half_even_of_int: "round_half_even (of_int m) = m"
  by (simp add: round_half_even_def)

lemma bitlen_le_54:
  assumes "0 < n" "n \<le> 2 ^ 53"
  shows "1 \<le> bitlen n" "bitlen n \<le> 54"
proof -
  show "1 \<le> bitlen n" using assms(1) by (simp add: bitlen_alt_def)
  have "2 ^ nat (bitlen n - 1) \<le> n" using bitlen_bounds [OF assms(1)] by simp
  then have "(2::int) ^ nat (bitlen n - 1) < 2 ^ 54" using assms(2) by simp
  then have "nat (bitlen n - 1) < 54"
    by (simp only: power_strict_increasing_iff [of 2] one_less_numeral_iff semiring_norm)
  then show "bitlen n \<le> 54" by simp
qed

text \<open>
  A whole number up to \<open>2\<^sup>5\<^sup>3\<close> is a double: rounding leaves it as it is. With 54 bits
  the number is \<open>2\<^sup>5\<^sup>3\<close> itself, whose half is whole.
\<close>

lemma round_double_safe_int:
  assumes "0 < n" "n \<le> 2 ^ 53"
  shows "round_double (of_int n) = Fin (of_int n)"
proof -
  let ?q = "of_int n :: rat"
  have q1: "1 \<le> ?q" using assms(1) by simp
  have il: "ilog2 \<bar>?q\<bar> = bitlen n - 1"
    using q1 by (simp add: ilog2_def)
  from bitlen_le_54 [OF assms] have b: "1 \<le> bitlen n" "bitlen n \<le> 54" .
  define e where "e = max (ilog2 \<bar>?q\<bar> - 52) (- 1074)"
  have e: "e = bitlen n - 53" using b by (simp add: e_def il)
  have v: "of_int (round_half_even (\<bar>?q\<bar> / pow2 e)) * pow2 e = ?q"
  proof (cases "e \<le> 0")
    case True
    have a: "\<bar>?q\<bar> / pow2 e = of_int (n * 2 ^ nat (- e))"
      using True assms(1) by (auto simp: pow2_def)
    have "of_int (round_half_even (\<bar>?q\<bar> / pow2 e)) * pow2 e
            = of_int (n * 2 ^ nat (- e)) * pow2 e"
      by (simp only: a round_half_even_of_int)
    also have "\<dots> = ?q" using True by (auto simp: pow2_def)
    finally show ?thesis .
  next
    case False
    then have e1: "e = 1" using e b by simp
    then have "bitlen n = 54" using e by simp
    then have "2 ^ 53 \<le> n" using bitlen_bounds [OF assms(1)] by simp
    then have n: "n = 2 ^ 53" using assms(2) by simp
    have "\<bar>?q\<bar> / pow2 e = of_int (2 ^ 52)"
      by (simp add: n e1 pow2_def)
    then show ?thesis
      by (simp only: round_half_even_of_int) (simp add: n e1 pow2_def)
  qed
  have "?q < pow2 1024"
  proof -
    have "?q \<le> 2 ^ 53" using assms(2) by (metis of_int_le_iff of_int_numeral of_int_power)
    also have "\<dots> < pow2 1024" by (simp add: pow2_def)
    finally show ?thesis .
  qed
  then show ?thesis
    using assms(1) v unfolding round_double_def e_def [symmetric] Let_def
    by (simp add: not_le)
qed

lemma round_double_of_nat:
  assumes "n \<le> 2 ^ 53"
  shows "round_double (of_nat n) = Fin (of_nat n)"
proof (cases "n = 0")
  case True
  then show ?thesis by (simp add: round_double_def)
next
  case False
  have "int n \<le> 2 ^ 53" using assms by (metis of_nat_le_iff of_nat_numeral of_nat_power)
  then show ?thesis using round_double_safe_int [of "int n"] False by simp
qed

lemma round_double_numeral:
  "numeral k \<le> (2::nat) ^ 53 \<Longrightarrow> round_double (numeral k) = Fin (numeral k)"
  using round_double_of_nat [of "numeral k"] by simp

lemma round_double_0_1: "round_double 0 = Fin 0" "round_double 1 = Fin 1"
  using round_double_of_nat [of 0] round_double_of_nat [of 1] by simp_all

text \<open>Rounding a fraction of two numerals is computed by rewriting.\<close>

lemma floor_rat_numeral_div: "\<lfloor>numeral a / numeral b :: rat\<rfloor> = numeral a div numeral b"
  by (metis floor_divide_of_int_eq of_int_numeral)

lemma ceiling_rat_numeral_div:
  "\<lceil>numeral a / numeral b :: rat\<rceil> = - (- numeral a div numeral b)"
  by (metis ceiling_divide_eq_div of_int_numeral)

lemmas round_eval = round_double_def ilog2_def pow2_def round_half_even_def Let_def
  compute_bitlen floor_rat_numeral_div ceiling_rat_numeral_div

lemma digit_chars:
  "digit_of CHR ''0'' = Some 0" "digit_of CHR ''1'' = Some 1" "digit_of CHR ''2'' = Some 2"
  "digit_of CHR ''3'' = Some 3" "digit_of CHR ''8'' = Some 8" "digit_of CHR ''.'' = None"
  "digit_of CHR ''a'' = Some 10" "digit_of CHR ''b'' = Some 11" "digit_of CHR ''c'' = Some 12"
  by (simp_all add: digit_of_def)

lemmas parse_eval = str_to_num_def trim_def is_ws_def parse_unsigned_def parse_decimal_def
  is_digit_def digit_chars nat_of_digits_def parse_exponent_def pow10_def

lemma str_to_num_1800: "str_to_num ''1800'' = Fin 1800"
  by (simp add: parse_eval round_double_numeral)

lemma str_to_num_abc: "str_to_num ''abc'' = NaN"
  by (simp add: parse_eval)

lemma str_to_num_tenths:
  "str_to_num ''0.1'' = Fin (3602879701896397 / 36028797018963968)"
  "str_to_num ''0.2'' = Fin (3602879701896397 / 18014398509481984)"
  "str_to_num ''0.3'' = Fin (5404319552844595 / 18014398509481984)"
  by (simp_all add: parse_eval round_eval)

lemma js_add_NaN_right: "js_add x NaN = NaN"
  by (cases x) simp_all

lemma foldl_js_add_NaN: "foldl js_add NaN ns = NaN"
  by (induction ns) simp_all

lemma foldl_js_add_has_NaN: "NaN \<in> set ns \<Longrightarrow> foldl js_add acc ns = NaN"
  by (induction ns arbitrary: acc) (auto simp: js_add_NaN_right foldl_js_add_NaN)

text \<open>Whole numbers add without rounding as long as the sum stays within \<open>2\<^sup>5\<^sup>3\<close>.\<close>

lemma foldl_js_add_exact:
  "k + sum_list ns \<le> 2 ^ 53 \<Longrightarrow>
   foldl js_add (Fin (of_nat k)) (map (\<lambda>n. Fin (of_nat n)) ns) = Fin (of_nat (k + sum_list ns))"
proof (induction ns arbitrary: k)
  case Nil
  then show ?case by simp
next
  case (Cons n ns)
  have "k + n \<le> 2 ^ 53" using Cons.prems by simp
  then have "js_add (Fin (of_nat k)) (Fin (of_nat n)) = Fin (of_nat (k + n))"
    using round_double_of_nat [of "k + n"] by simp
  moreover have "(k + n) + sum_list ns \<le> 2 ^ 53" using Cons.prems by simp
  ultimately show ?case using Cons.IH [of "k + n"] by (simp add: add.assoc)
qed

section \<open>Evaluating the services\<close>

lemmas service_eval = ok_def failed_def maybeSingle_def js_or_def js_nullish_def js_opt_prop_def
  number_or_zero_def JNat_def column_value_def round_double_numeral round_double_0_1

lemma js_split_takeWhile:
  "\<exists>ps. js_split s c = takeWhile (\<lambda>x. x \<noteq> c) s # ps"
  by (induction s) (auto split: list.splits)

lemma number_or_zero_calories:
  "primitive v \<Longrightarrow>
   number_or_zero (JObj [(''calories'', v)]) ''calories'' = Inr (calories_number v)"
  by (cases v) (auto simp: number_or_zero_def js_or_def calories_number_def)

lemma sum_calories_rows:
  "\<forall>v \<in> set vs. primitive v \<Longrightarrow>
   sum_calories acc (map (\<lambda>v. JObj [(''calories'', v)]) vs)
     = Inr (foldl js_add acc (map calories_number vs))"
  by (induction vs arbitrary: acc) (simp_all add: number_or_zero_calories)

text \<open>
  On scalar calories the total is the sum, from the left and starting at \<open>0\<close>, of what
  the rows in the range count for.
\<close>

lemma getTotalCaloriesInRange_run:
  assumes "\<forall>r \<in> set (food_logs s). in_range u a b r \<longrightarrow> primitive (log_calories r)"
  shows "run supabase (getTotalCaloriesInRange u a b) s
           = (Inr (JNum (foldl js_add (Fin 0)
                 (map (\<lambda>r. calories_number (log_calories r))
                    (filter (in_range u a b) (food_logs s))))),
              s, [SelectCaloriesInRange u a b])"
proof -
  let ?rows = "filter (in_range u a b) (food_logs s)"
  have f: "filter (\<lambda>r. log_user_id r = u \<and> a \<le> log_date r \<and> log_date r \<le> b) (food_logs s)
             = ?rows"
    by (simp add: in_range_def [abs_def])
  have "\<forall>v \<in> set (map log_calories ?rows). primitive v"
    using assms by auto
  from sum_calories_rows [OF this, of "Fin 0"]
  have "sum_calories (Fin 0) (map (\<lambda>r. JObj [(''calories'', log_calories r)]) ?rows)
          = Inr (foldl js_add (Fin 0) (map (\<lambda>r. calories_number (log_calories r)) ?rows))"
    by (simp add: comp_def)
  then show ?thesis
    by (simp add: getTotalCaloriesInRange_def ok_def js_or_def f)
qed

lemma sum_list_split_range:
  assumes "a \<le> b" "b < c"
  shows "sum_list (map n (filter (in_range u a c) xs))
           = sum_list (map n (filter (in_range u a b) xs))
             + sum_list (map (n :: food_log \<Rightarrow> nat) (filter (in_range u (b + 1) c) xs))"
  using assms by (induction xs) (auto simp: in_range_def)

text \<open>The two paths of the program that no statement below walks, on an example each.\<close>

lemma requireAuth_valid_token_example:
  "run (\<lambda>q w. (Resolved (JObj [(''uid'', JStr ''abc'')]), w))
       (requireAuth \<lparr>authorization = Some ''Bearer t0ken''\<rparr>) ()
     = (Inr (Forwarded (JObj [(''uid'', JStr ''abc'')])), (),
        [VerifyIdToken ''t0ken'', Next (JObj [(''uid'', JStr ''abc'')])])"
  by (simp add: requireAuth_def)

lemma getDailyNutritionSummary_example:
  "fst (run supabase (getDailyNutritionSummary 7 19000) example_db)
     = Inr \<lparr>protein = Fin 12, carbs = Fin 80, fat = Fin 20\<rparr>"
  by (simp add: getDailyNutritionSummary_def example_db_def nutrition_json_def
      zero_summary_def service_eval)

section \<open>Properties of the authentication gate\<close>

text \<open>
  \<^bold>\<open>C2.\<close> For every request whose \<open>Authorization\<close> header is absent or lacks the
  \<open>Bearer \<close> prefix, \<open>requireAuth\<close> responds 401 with the message
  \<open>Unauthorized: missing token\<close> and makes no request at all: whatever the identity
  provider would answer, \<open>verifyIdToken\<close> is not called and the provider's state is
  untouched.
\<close>

theorem requireAuth_missing_token:
  assumes "authorization req = None
         \<or> (\<exists>v. authorization req = Some v \<and> \<not> prefix ''Bearer '' v)"
  shows "requireAuth req = Return (Responded 401 ''Unauthorized: missing token'')
       \<and> run h (requireAuth req) w
           = (Inr (Responded 401 ''Unauthorized: missing token''), w, [])"
  using assms by (auto simp: requireAuth_def)

theorem requireAuth_missing_token_witness:
  "run (\<lambda>q w. (Resolved JNull, q # w)) (requireAuth \<lparr>authorization = None\<rparr>) []
     = (Inr (Responded 401 ''Unauthorized: missing token''), [], [])
   \<and> run (\<lambda>q w. (Resolved JNull, q # w))
         (requireAuth \<lparr>authorization = Some ''Basic dXNlcg==''\<rparr>) []
     = (Inr (Responded 401 ''Unauthorized: missing token''), [], [])"
  using requireAuth_missing_token
          [of "\<lparr>authorization = None\<rparr>" "\<lambda>q w. (Resolved JNull, q # w)" "[]"]
        requireAuth_missing_token
          [of "\<lparr>authorization = Some ''Basic dXNlcg==''\<rparr>"
              "\<lambda>q w. (Resolved JNull, q # w)" "[]"]
  by simp

text \<open>
  \<^bold>\<open>C10.\<close> A header that is exactly \<open>Bearer \<close>, the prefix with an empty token after it,
  is a missing token: \<open>requireAuth\<close> responds 401 with \<open>Unauthorized: missing token\<close> and
  does not call the identity provider.
\<close>

theorem requireAuth_empty_bearer:
  assumes "authorization req = Some ''Bearer ''"
  shows "requireAuth req = Return (Responded 401 ''Unauthorized: missing token'')
       \<and> run h (requireAuth req) w
           = (Inr (Responded 401 ''Unauthorized: missing token''), w, [])"
  using assms by (simp add: requireAuth_def)

theorem requireAuth_empty_bearer_witness:
  "run (\<lambda>q w. (Resolved JNull, q # w)) (requireAuth \<lparr>authorization = Some ''Bearer ''\<rparr>) []
     = (Inr (Responded 401 ''Unauthorized: missing token''), [], [])"
  using requireAuth_empty_bearer
          [of "\<lparr>authorization = Some ''Bearer ''\<rparr>" "\<lambda>q w. (Resolved JNull, q # w)" "[]"]
  by simp

section \<open>Properties of the data access layer\<close>

text \<open>
  \<^bold>\<open>C1.\<close> For every userId and date and every behaviour of the store,
  \<open>getDailyNutritionSummary\<close> returns a summary and never throws. It returns the zero
  summary when the request is rejected, when the store answers with an error, and when
  reading the rows throws (the data cannot be iterated, a row is \<open>null\<close>, a nutrient
  cannot be converted).
\<close>

theorem getDailyNutritionSummary_never_throws:
  "(\<exists>s. fst (run h (getDailyNutritionSummary userId date) w) = Inr s)
   \<and> ((\<exists>e. fst (h (SelectNutrition userId date) w) = Rejected e) \<longrightarrow>
        fst (run h (getDailyNutritionSummary userId date) w) = Inr zero_summary)
   \<and> ((\<exists>r. fst (h (SelectNutrition userId date) w) = Resolved r \<and> truthy (error r)) \<longrightarrow>
        fst (run h (getDailyNutritionSummary userId date) w) = Inr zero_summary)
   \<and> ((\<exists>r e. fst (h (SelectNutrition userId date) w) = Resolved r
          \<and> js_iterate (js_or (data r) (JArr [])) = Inl e) \<longrightarrow>
        fst (run h (getDailyNutritionSummary userId date) w) = Inr zero_summary)
   \<and> ((\<exists>r rows e. fst (h (SelectNutrition userId date) w) = Resolved r
          \<and> js_iterate (js_or (data r) (JArr [])) = Inr rows
          \<and> sum_nutrition zero_summary rows = Inl e) \<longrightarrow>
        fst (run h (getDailyNutritionSummary userId date) w) = Inr zero_summary)"
  by (auto simp: getDailyNutritionSummary_def split: prod.splits outcome.splits sum.splits)

theorem getDailyNutritionSummary_never_throws_witness:
  "fst (run (\<lambda>q w. (Rejected (ErrorMsg ''fetch failed''), w))
          (getDailyNutritionSummary 7 19000) ()) = Inr zero_summary
   \<and> fst (run (\<lambda>q w. (failed ''PGRST200'', w))
          (getDailyNutritionSummary 7 19000) ()) = Inr zero_summary
   \<and> fst (run (\<lambda>q w. (ok (JNum (Fin 5)), w))
          (getDailyNutritionSummary 7 19000) ()) = Inr zero_summary
   \<and> fst (run (\<lambda>q w. (ok (JArr [JNull]), w))
          (getDailyNutritionSummary 7 19000) ()) = Inr zero_summary"
  using getDailyNutritionSummary_never_throws
          [of "\<lambda>q w. (Rejected (ErrorMsg ''fetch failed''), w)" 7 19000 "()"]
        getDailyNutritionSummary_never_throws
          [of "\<lambda>q w. (failed ''PGRST200'', w)" 7 19000 "()"]
        getDailyNutritionSummary_never_throws
          [of "\<lambda>q w. (ok (JNum (Fin 5)), w)" 7 19000 "()"]
        getDailyNutritionSummary_never_throws
          [of "\<lambda>q w. (ok (JArr [JNull]), w)" 7 19000 "()"]
  by (simp add: failed_def ok_def js_or_def)

text \<open>
  \<^bold>\<open>C3.\<close> For every input whose \<open>firebase_uid\<close> is absent or empty (or falsy in any other
  way), \<open>syncFirebaseUser\<close> throws the validation error \<open>firebase_uid is required\<close>
  before any request: under every handler no request is made and the state is the one
  it started from, so the \<open>users\<close> table of the store is unchanged.
\<close>

theorem syncFirebaseUser_requires_uid:
  assumes "\<not> truthy (firebase_uid p)"
  shows "syncFirebaseUser p = Throw (ErrorMsg ''firebase_uid is required'')
       \<and> run h (syncFirebaseUser p) w = (Inl (ErrorMsg ''firebase_uid is required''), w, [])
       \<and> users (fst (snd (run supabase (syncFirebaseUser p) s))) = users s"
  using assms by (simp add: syncFirebaseUser_def)

theorem syncFirebaseUser_requires_uid_witness:
  "run supabase
      (syncFirebaseUser
         \<lparr>firebase_uid = JUndefined, email = JStr ''a@b.com'', username = JUndefined\<rparr>)
      \<lparr>food_logs = [], users = [], makanan = []\<rparr>
     = (Inl (ErrorMsg ''firebase_uid is required''),
        \<lparr>food_logs = [], users = [], makanan = []\<rparr>, [])
   \<and> run supabase
      (syncFirebaseUser
         \<lparr>firebase_uid = JStr [], email = JUndefined, username = JUndefined\<rparr>)
      \<lparr>food_logs = [], users = [], makanan = []\<rparr>
     = (Inl (ErrorMsg ''firebase_uid is required''),
        \<lparr>food_logs = [], users = [], makanan = []\<rparr>, [])"
  using syncFirebaseUser_requires_uid
          [of "\<lparr>firebase_uid = JUndefined, email = JStr ''a@b.com'', username = JUndefined\<rparr>"
              supabase "\<lparr>food_logs = [], users = [], makanan = []\<rparr>"]
        syncFirebaseUser_requires_uid
          [of "\<lparr>firebase_uid = JStr [], email = JUndefined, username = JUndefined\<rparr>"
              supabase "\<lparr>food_logs = [], users = [], makanan = []\<rparr>"]
  by simp

text \<open>
  \<^bold>\<open>C4\<close>, as the code has it. For every userId, startDate and endDate and every state
  of the store whose calories in the range are scalars, \<open>getTotalCaloriesInRange\<close> is
  the sum, from the left and starting at \<open>0\<close>, of what each row counts for: a row whose
  calories are missing or \<open>null\<close> counts for \<open>0\<close>; a row whose calories are a string that
  is not numeric, such as \<open>"abc"\<close>, counts for \<open>NaN\<close>, and one such row makes the total
  \<open>NaN\<close>.
\<close>

theorem getTotalCaloriesInRange_counts:
  assumes "\<forall>r \<in> set (food_logs s).
             in_range userId startDate endDate r \<longrightarrow> primitive (log_calories r)"
  shows "fst (run supabase (getTotalCaloriesInRange userId startDate endDate) s)
           = Inr (JNum (foldl js_add (Fin 0)
               (map (\<lambda>r. calories_number (log_calories r))
                  (filter (in_range userId startDate endDate) (food_logs s)))))
       \<and> calories_number JNull = Fin 0
       \<and> calories_number JUndefined = Fin 0
       \<and> calories_number (JStr ''abc'') = NaN
       \<and> ((\<exists>r \<in> set (food_logs s). in_range userId startDate endDate r
              \<and> calories_number (log_calories r) = NaN) \<longrightarrow>
           fst (run supabase (getTotalCaloriesInRange userId startDate endDate) s)
             = Inr (JNum NaN))"
proof (intro conjI impI)
  show "fst (run supabase (getTotalCaloriesInRange userId startDate endDate) s)
           = Inr (JNum (foldl js_add (Fin 0)
               (map (\<lambda>r. calories_number (log_calories r))
                  (filter (in_range userId startDate endDate) (food_logs s)))))"
    by (simp add: getTotalCaloriesInRange_run [OF assms])
next
  assume "\<exists>r \<in> set (food_logs s). in_range userId startDate endDate r
              \<and> calories_number (log_calories r) = NaN"
  then have "NaN \<in> set (map (\<lambda>r. calories_number (log_calories r))
                  (filter (in_range userId startDate endDate) (food_logs s)))"
    by force
  then show "fst (run supabase (getTotalCaloriesInRange userId startDate endDate) s)
               = Inr (JNum NaN)"
    by (simp only: getTotalCaloriesInRange_run [OF assms] foldl_js_add_has_NaN fst_conv)
qed (simp_all add: calories_number_def str_to_num_abc)

theorem getTotalCaloriesInRange_counts_witness:
  "fst (run supabase (getTotalCaloriesInRange 7 19000 19001) example_db) = Inr (JNum (Fin 880))
   \<and> fst (run supabase (getTotalCaloriesInRange 8 18000 20000) example_db) = Inr (JNum NaN)"
  using getTotalCaloriesInRange_counts [of example_db 7 19000 19001]
        getTotalCaloriesInRange_counts [of example_db 8 18000 20000]
  by (simp add: example_db_def in_range_def calories_number_def service_eval str_to_num_abc)

text \<open>
  The statement of C4 as it was given fails: user 8 has a log of 400 calories and a log
  whose calories are the string \<open>"abc"\<close> on the same day, and the total of that day is
  \<open>NaN\<close>, not the 400 that counting \<open>"abc"\<close> as \<open>0\<close> would give.
\<close>

theorem getTotalCaloriesInRange_non_numeric_is_NaN:
  "fst (run supabase (getTotalCaloriesInRange 8 19000 19000) example_db) = Inr (JNum NaN)
   \<and> fst (run supabase (getTotalCaloriesInRange 8 19000 19000) example_db)
       \<noteq> Inr (JNum (Fin 400))"
  by (simp add: getTotalCaloriesInRange_def example_db_def service_eval str_to_num_abc)

text \<open>
  \<^bold>\<open>C5\<close>, as the code has it. For every userId and dates \<open>a \<le> b < c\<close> and every state of
  the store in which each row of the user between \<open>a\<close> and \<open>c\<close> counts for a whole number
  \<open>n r \<ge> 0\<close>, these numbers adding up to at most \<open>2\<^sup>5\<^sup>3\<close>, the total over \<open>[a, b]\<close> plus
  the total over \<open>[b + 1, c]\<close> is the total over \<open>[a, c]\<close>.
\<close>

theorem getTotalCaloriesInRange_additive_exact:
  assumes "a \<le> b" and "b < c"
    and "\<forall>r \<in> set (food_logs s). in_range userId a c r \<longrightarrow>
           primitive (log_calories r) \<and> calories_number (log_calories r) = Fin (of_nat (n r))"
    and "sum_list (map n (filter (in_range userId a c) (food_logs s))) \<le> 2 ^ 53"
  shows "\<exists>x y z.
           fst (run supabase (getTotalCaloriesInRange userId a b) s) = Inr (JNum x)
         \<and> fst (run supabase (getTotalCaloriesInRange userId (b + 1) c) s) = Inr (JNum y)
         \<and> fst (run supabase (getTotalCaloriesInRange userId a c) s) = Inr (JNum z)
         \<and> js_add x y = z"
proof -
  let ?L = "food_logs s"
  let ?S = "\<lambda>lo hi. sum_list (map n (filter (in_range userId lo hi) ?L))"
  have sub: "in_range userId lo hi r \<Longrightarrow> a \<le> lo \<Longrightarrow> hi \<le> c \<Longrightarrow> in_range userId a c r"
    for lo hi r
    by (auto simp: in_range_def)
  have split: "?S a c = ?S a b + ?S (b + 1) c"
    using sum_list_split_range [OF assms(1,2)] .
  have total: "fst (run supabase (getTotalCaloriesInRange userId lo hi) s)
                 = Inr (JNum (Fin (of_nat (?S lo hi))))"
    if "a \<le> lo" "hi \<le> c" "?S lo hi \<le> 2 ^ 53" for lo hi
  proof -
    let ?F = "filter (in_range userId lo hi) ?L"
    have prim: "\<forall>r \<in> set ?L. in_range userId lo hi r \<longrightarrow> primitive (log_calories r)"
      using assms(3) sub [OF _ that(1,2)] by blast
    have m: "map (\<lambda>r. calories_number (log_calories r)) ?F = map (\<lambda>r. Fin (of_nat (n r))) ?F"
      using assms(3) sub [OF _ that(1,2)] by (intro map_cong refl) auto
    have "foldl js_add (Fin (of_nat 0)) (map (\<lambda>m. Fin (of_nat m)) (map n ?F))
            = Fin (of_nat (0 + ?S lo hi))"
      by (rule foldl_js_add_exact) (use that(3) in simp)
    then have "foldl js_add (Fin 0) (map (\<lambda>r. Fin (of_nat (n r))) ?F) = Fin (of_nat (?S lo hi))"
      by (simp add: comp_def)
    then show ?thesis
      by (simp only: getTotalCaloriesInRange_run [OF prim] m fst_conv)
  qed
  have le1: "?S a b \<le> 2 ^ 53" and le2: "?S (b + 1) c \<le> 2 ^ 53"
    using assms(4) split by simp_all
  have x: "fst (run supabase (getTotalCaloriesInRange userId a b) s)
             = Inr (JNum (Fin (of_nat (?S a b))))"
    using total [of a b] assms(1,2) le1 by simp
  have y: "fst (run supabase (getTotalCaloriesInRange userId (b + 1) c) s)
             = Inr (JNum (Fin (of_nat (?S (b + 1) c))))"
    using total [of "b + 1" c] assms(1,2) le2 by simp
  have z: "fst (run supabase (getTotalCaloriesInRange userId a c) s)
             = Inr (JNum (Fin (of_nat (?S a c))))"
    using total [of a c] assms(4) by simp
  have "js_add (Fin (of_nat (?S a b))) (Fin (of_nat (?S (b + 1) c))) = Fin (of_nat (?S a c))"
    using round_double_of_nat [of "?S a c"] assms(4) by (simp add: split)
  with x y z show ?thesis by blast
qed

theorem getTotalCaloriesInRange_additive_exact_witness:
  "fst (run supabase (getTotalCaloriesInRange 7 19000 19000) example_db) = Inr (JNum (Fin 630))
   \<and> fst (run supabase (getTotalCaloriesInRange 7 (19000 + 1) 19001) example_db)
       = Inr (JNum (Fin 250))
   \<and> fst (run supabase (getTotalCaloriesInRange 7 19000 19001) example_db) = Inr (JNum (Fin 880))
   \<and> js_add (Fin 630) (Fin 250) = Fin 880"
  using getTotalCaloriesInRange_additive_exact
          [of 19000 19000 19001 example_db 7
              "\<lambda>r. if log_id r = 1 then 630 else if log_id r = 3 then 250 else 0"]
  by (simp add: getTotalCaloriesInRange_def example_db_def service_eval)

text \<open>
  The statement of C5 as it was given fails, because the sum is a sum of doubles, which
  round. With 0.1 logged on day 19000 and 0.2 and 0.3 on day 19001, the total of the
  first day is 0.1 and that of the second is 0.5, which add up to 0.6, the double
  \<open>5404319552844595 / 2\<^sup>5\<^sup>3\<close>; the total of the two days is \<open>(0.1 + 0.2) + 0.3\<close>, the next
  double \<open>5404319552844596 / 2\<^sup>5\<^sup>3\<close> (printed 0.6000000000000001).
\<close>

theorem getTotalCaloriesInRange_not_additive:
  "fst (run supabase (getTotalCaloriesInRange 7 19000 19000) fractions_db)
     = Inr (JNum (Fin (3602879701896397 / 36028797018963968)))
   \<and> fst (run supabase (getTotalCaloriesInRange 7 (19000 + 1) 19001) fractions_db)
     = Inr (JNum (Fin (1 / 2)))
   \<and> fst (run supabase (getTotalCaloriesInRange 7 19000 19001) fractions_db)
     = Inr (JNum (Fin (1351079888211149 / 2251799813685248)))
   \<and> js_add (Fin (3602879701896397 / 36028797018963968)) (Fin (1 / 2))
     = Fin (5404319552844595 / 9007199254740992)
   \<and> js_add (Fin (3602879701896397 / 36028797018963968)) (Fin (1 / 2))
     \<noteq> Fin (1351079888211149 / 2251799813685248)"
proof -
  have p: "\<forall>r \<in> set (food_logs fractions_db). in_range 7 a b r \<longrightarrow> primitive (log_calories r)"
    for a b
    by (simp add: fractions_db_def)
  have ab: "fst (run supabase (getTotalCaloriesInRange 7 19000 19000) fractions_db)
     = Inr (JNum (Fin (3602879701896397 / 36028797018963968)))"
    unfolding getTotalCaloriesInRange_run [OF p]
    by (simp add: fractions_db_def in_range_def calories_number_def str_to_num_tenths round_eval)
  have bc: "fst (run supabase (getTotalCaloriesInRange 7 (19000 + 1) 19001) fractions_db)
     = Inr (JNum (Fin (1 / 2)))"
    unfolding getTotalCaloriesInRange_run [OF p]
    by (simp add: fractions_db_def in_range_def calories_number_def str_to_num_tenths round_eval)
  have ac: "fst (run supabase (getTotalCaloriesInRange 7 19000 19001) fractions_db)
     = Inr (JNum (Fin (1351079888211149 / 2251799813685248)))"
    unfolding getTotalCaloriesInRange_run [OF p]
    by (simp add: fractions_db_def in_range_def calories_number_def str_to_num_tenths round_eval)
  have s: "js_add (Fin (3602879701896397 / 36028797018963968)) (Fin (1 / 2))
     = Fin (5404319552844595 / 9007199254740992)"
    by (simp add: round_eval)
  show ?thesis
    unfolding s using ab bc ac by simp
qed

text \<open>
  \<^bold>\<open>C6.\<close> For every userId and date, \<open>getFoodLogsByDate\<close> returns the rows of the store
  that match both, each once, in non-decreasing \<open>logged_at\<close> order: the order is the
  store's, asked for by the request, and the program hands on the data of any answer
  as they are. When no row matches, or when the answer has neither data nor an error,
  the result is the empty array and nothing is thrown.
\<close>

theorem getFoodLogsByDate_sorted:
  "(\<exists>rows. run supabase (getFoodLogsByDate userId date) s
             = (Inr (JArr (map food_log_json rows)), s, [SelectFoodLogsByDate userId date])
          \<and> sorted (map log_logged_at rows)
          \<and> mset rows
             = mset (filter (\<lambda>r. log_user_id r = userId \<and> log_date r = date) (food_logs s)))
   \<and> ((\<forall>r \<in> set (food_logs s). \<not> (log_user_id r = userId \<and> log_date r = date)) \<longrightarrow>
        fst (run supabase (getFoodLogsByDate userId date) s) = Inr (JArr []))
   \<and> ((\<exists>r. fst (h (SelectFoodLogsByDate userId date) w) = Resolved r
           \<and> \<not> truthy (error r) \<and> \<not> truthy (data r)) \<longrightarrow>
        fst (run h (getFoodLogsByDate userId date) w) = Inr (JArr []))
   \<and> (\<forall>r. fst (h (SelectFoodLogsByDate userId date) w) = Resolved r
           \<and> \<not> truthy (error r) \<and> truthy (data r) \<longrightarrow>
        fst (run h (getFoodLogsByDate userId date) w) = Inr (data r))"
proof (intro conjI impI allI)
  let ?m = "filter (\<lambda>r. log_user_id r = userId \<and> log_date r = date) (food_logs s)"
  have "run supabase (getFoodLogsByDate userId date) s
          = (Inr (JArr (map food_log_json (sort_key log_logged_at ?m))), s,
             [SelectFoodLogsByDate userId date])"
    by (simp add: getFoodLogsByDate_def ok_def js_or_def)
  then show "\<exists>rows. run supabase (getFoodLogsByDate userId date) s
             = (Inr (JArr (map food_log_json rows)), s, [SelectFoodLogsByDate userId date])
          \<and> sorted (map log_logged_at rows) \<and> mset rows = mset ?m"
    by (intro exI [of _ "sort_key log_logged_at ?m"]) simp
next
  assume "\<forall>r \<in> set (food_logs s). \<not> (log_user_id r = userId \<and> log_date r = date)"
  then have "filter (\<lambda>r. log_user_id r = userId \<and> log_date r = date) (food_logs s) = []"
    by (simp add: filter_empty_conv)
  then show "fst (run supabase (getFoodLogsByDate userId date) s) = Inr (JArr [])"
    by (simp add: getFoodLogsByDate_def ok_def js_or_def)
next
  assume "\<exists>r. fst (h (SelectFoodLogsByDate userId date) w) = Resolved r
           \<and> \<not> truthy (error r) \<and> \<not> truthy (data r)"
  then show "fst (run h (getFoodLogsByDate userId date) w) = Inr (JArr [])"
    by (auto simp: getFoodLogsByDate_def js_or_def split: prod.splits)
next
  fix r
  assume "fst (h (SelectFoodLogsByDate userId date) w) = Resolved r
           \<and> \<not> truthy (error r) \<and> truthy (data r)"
  then show "fst (run h (getFoodLogsByDate userId date) w) = Inr (data r)"
    by (auto simp: getFoodLogsByDate_def js_or_def split: prod.splits)
qed

theorem getFoodLogsByDate_sorted_witness:
  "map (\<lambda>v. js_opt_prop v ''logged_at'')
       (case fst (run supabase (getFoodLogsByDate 7 19000) example_db) of
          Inr (JArr rows) \<Rightarrow> rows | _ \<Rightarrow> [])
     = [JNat 10, JNat 30]
   \<and> fst (run supabase (getFoodLogsByDate 7 18000) example_db) = Inr (JArr [])
   \<and> fst (run (\<lambda>q w. (ok JNull, w)) (getFoodLogsByDate 7 19000) ()) = Inr (JArr [])
   \<and> fst (run (\<lambda>q w. (ok (JArr [JStr ''row'']), w)) (getFoodLogsByDate 7 19000) ())
       = Inr (JArr [JStr ''row''])"
  using getFoodLogsByDate_sorted [of 7 19000 example_db "\<lambda>q w. (ok JNull, w)" "()"]
        getFoodLogsByDate_sorted [of 7 18000 example_db "\<lambda>q w. (ok JNull, w)" "()"]
        getFoodLogsByDate_sorted
          [of 7 19000 example_db "\<lambda>q w. (ok (JArr [JStr ''row'']), w)" "()"]
  by (simp add: getFoodLogsByDate_def example_db_def food_log_json_def service_eval)

text \<open>
  \<^bold>\<open>C7.\<close> For every call of \<open>syncFirebaseUser\<close> with a \<open>firebase_uid\<close> that is present and
  matches no row of \<open>users\<close>, with no username and with an email, the call inserts one
  user whose username is the email up to its first \<open>@\<close>, and returns the new id. For
  the email \<open>x@y.com\<close> the username is \<open>x\<close>.
\<close>

theorem syncFirebaseUser_derives_username:
  assumes "truthy (firebase_uid p)"
    and "\<forall>r \<in> set (users s). user_firebase_uid r \<noteq> firebase_uid p"
    and "\<not> truthy (username p)"
    and "email p = JStr e" and "e \<noteq> []"
  shows "run supabase (syncFirebaseUser p) s
           = (Inr (JNat (fresh_user_id (users s))),
              s\<lparr>users := users s @
                 [\<lparr>user_id = fresh_user_id (users s),
                   user_firebase_uid = column_value (firebase_uid p),
                   user_email = JStr e,
                   user_username = JStr (takeWhile (\<lambda>c. c \<noteq> CHR ''@'') e),
                   user_daily_calorie_target = JNull\<rparr>]\<rparr>,
              [SelectUserId (firebase_uid p),
               InsertUser (firebase_uid p) (JStr e)
                 (JStr (takeWhile (\<lambda>c. c \<noteq> CHR ''@'') e))])"
proof -
  obtain ps where "js_split e CHR ''@'' = takeWhile (\<lambda>c. c \<noteq> CHR ''@'') e # ps"
    using js_split_takeWhile by blast
  then have name: "effectiveUsername p = Inr (JStr (takeWhile (\<lambda>c. c \<noteq> CHR ''@'') e))"
    using assms(3,4,5) by (simp add: effectiveUsername_def)
  have none: "filter (\<lambda>r. user_firebase_uid r = firebase_uid p) (users s) = []"
    using assms(2) by (simp add: filter_empty_conv)
  have new: "firebase_uid p \<notin> user_firebase_uid ` set (users s)"
    using assms(2) by auto
  have cv: "column_value (JStr x) = JStr x" for x
    by (simp add: column_value_def)
  show ?thesis
    using assms(1) new
    by (simp add: syncFirebaseUser_def name none maybeSingle_def ok_def assms(4) cv)
qed

theorem syncFirebaseUser_derives_username_witness:
  "run supabase
     (syncFirebaseUser
        \<lparr>firebase_uid = JStr ''xyz'', email = JStr ''x@y.com'', username = JUndefined\<rparr>)
     example_db
   = (Inr (JNat 9),
      example_db\<lparr>users := users example_db @
        [\<lparr>user_id = 9, user_firebase_uid = JStr ''xyz'', user_email = JStr ''x@y.com'',
          user_username = JStr ''x'', user_daily_calorie_target = JNull\<rparr>]\<rparr>,
      [SelectUserId (JStr ''xyz''), InsertUser (JStr ''xyz'') (JStr ''x@y.com'') (JStr ''x'')])"
  using syncFirebaseUser_derives_username
          [of "\<lparr>firebase_uid = JStr ''xyz'', email = JStr ''x@y.com'', username = JUndefined\<rparr>"
              example_db "''x@y.com''"]
  by (simp add: example_db_def fresh_user_id_def column_value_def)

text \<open>
  \<^bold>\<open>C8.\<close> For every userId, \<open>updateUserDailyCalorieTarget\<close> normalizes the target before
  it reaches the store. Called with \<open>null\<close> or \<open>undefined\<close> it sends \<open>null\<close>, which every
  row of that id then holds, and returns \<open>null\<close>. Called with the string \<open>"1800"\<close> it
  sends and returns the number 1800; called with any string that denotes a finite
  number it sends and returns that number.
\<close>

theorem updateUserDailyCalorieTarget_normalizes:
  "((target = JNull \<or> target = JUndefined) \<longrightarrow>
      run supabase (updateUserDailyCalorieTarget userId target) s
        = (Inr JNull,
           s\<lparr>users := map (\<lambda>r. if user_id r = userId
                                  then r\<lparr>user_daily_calorie_target := JNull\<rparr>
                                  else r) (users s)\<rparr>,
           [UpdateTarget userId JNull]))
   \<and> run supabase (updateUserDailyCalorieTarget userId (JStr ''1800'')) s
        = (Inr (JNum (Fin 1800)),
           s\<lparr>users := map (\<lambda>r. if user_id r = userId
                                  then r\<lparr>user_daily_calorie_target := JNum (Fin 1800)\<rparr>
                                  else r) (users s)\<rparr>,
           [UpdateTarget userId (JNum (Fin 1800))])
   \<and> (\<forall>str q. str_to_num str = Fin q \<longrightarrow>
        run supabase (updateUserDailyCalorieTarget userId (JStr str)) s
        = (Inr (JNum (Fin q)),
           s\<lparr>users := map (\<lambda>r. if user_id r = userId
                                  then r\<lparr>user_daily_calorie_target := JNum (Fin q)\<rparr>
                                  else r) (users s)\<rparr>,
           [UpdateTarget userId (JNum (Fin q))]))"
  by (auto simp: updateUserDailyCalorieTarget_def normalize_target_def ok_def column_value_def
      str_to_num_1800)

theorem updateUserDailyCalorieTarget_normalizes_witness:
  "fst (run supabase (updateUserDailyCalorieTarget 7 JNull) example_db) = Inr JNull
   \<and> map user_daily_calorie_target
        (users (fst (snd (run supabase (updateUserDailyCalorieTarget 7 JNull) example_db))))
      = [JNull, JNull]
   \<and> fst (run supabase (updateUserDailyCalorieTarget 8 (JStr ''1800'')) example_db)
      = Inr (JNum (Fin 1800))
   \<and> map user_daily_calorie_target
        (users (fst (snd (run supabase (updateUserDailyCalorieTarget 8 (JStr ''1800''))
           example_db))))
      = [JNat 2000, JNum (Fin 1800)]"
  using updateUserDailyCalorieTarget_normalizes [of JNull 7 example_db]
        updateUserDailyCalorieTarget_normalizes [of JNull 8 example_db]
  by (simp add: example_db_def)

text \<open>
  \<^bold>\<open>C9.\<close> For every userId, \<open>getUserDailyCalorieTarget\<close> returns the number in the
  target column of the user's row, and returns \<open>null\<close> without throwing both when the
  row holds no target and when no row has that id (the store, or any handler, then
  answers with no data and no error).
\<close>

theorem getUserDailyCalorieTarget_unset:
  "(filter (\<lambda>r. user_id r = userId) (users s) = [] \<longrightarrow>
      run supabase (getUserDailyCalorieTarget userId) s = (Inr JNull, s, [SelectTarget userId]))
   \<and> (\<forall>u. filter (\<lambda>r. user_id r = userId) (users s) = [u]
            \<and> user_daily_calorie_target u = JNull \<longrightarrow>
      run supabase (getUserDailyCalorieTarget userId) s = (Inr JNull, s, [SelectTarget userId]))
   \<and> (\<forall>u n. filter (\<lambda>r. user_id r = userId) (users s) = [u]
            \<and> user_daily_calorie_target u = JNum n \<longrightarrow>
      run supabase (getUserDailyCalorieTarget userId) s
        = (Inr (JNum n), s, [SelectTarget userId]))
   \<and> ((\<exists>r. fst (h (SelectTarget userId) w) = Resolved r \<and> \<not> truthy (error r)
            \<and> (data r = JNull \<or> data r = JUndefined)) \<longrightarrow>
      fst (run h (getUserDailyCalorieTarget userId) w) = Inr JNull)"
  by (auto simp: getUserDailyCalorieTarget_def maybeSingle_def ok_def js_nullish_def
      js_opt_prop_def split: prod.splits)

theorem getUserDailyCalorieTarget_unset_witness:
  "fst (run supabase (getUserDailyCalorieTarget 7) example_db) = Inr (JNum (Fin 2000))
   \<and> fst (run supabase (getUserDailyCalorieTarget 8) example_db) = Inr JNull
   \<and> fst (run supabase (getUserDailyCalorieTarget 99) example_db) = Inr JNull
   \<and> fst (run (\<lambda>q w. (ok JNull, w)) (getUserDailyCalorieTarget 7) ()) = Inr JNull"
  using getUserDailyCalorieTarget_unset [of 7 example_db "\<lambda>q w. (ok JNull, w)" "()"]
        getUserDailyCalorieTarget_unset [of 8 example_db "\<lambda>q w. (ok JNull, w)" "()"]
        getUserDailyCalorieTarget_unset [of 99 example_db "\<lambda>q w. (ok JNull, w)" "()"]
  by (simp add: example_db_def JNat_def ok_def)

end
